theory Spec2Isabelle
  imports Complex_Main
begin

section \<open>JavaScript values\<close>

text \<open>
  The generator of \<^verbatim>\<open>src/index.js\<close> is a class whose methods build option objects,
  hand them to an external command object (fluent-ffmpeg) and turn the command's
  notifications into a promise. The values that flow through it are modelled by one
  datatype.

  The program never computes with numbers: it compares them, tests them and prints
  them. A finite number is therefore represented by a decimal \<open>m \<times> 10^e\<close>, the decimal the
  language prints for it (the shortest one that reads back as the same double); on
  doubles this representation is one-to-one and keeps the order. NaN and the two
  infinities are values of their own. Decimals of more than 17 significant digits or
  beyond the range of doubles denote no double; they are kept as they are.

  Plain objects and functions live in a store and are values only as references,
  because the merge utility writes into its first argument. Arrays and Error objects are
  carried as values: the code never relies on their identity. Symbols and BigInts are
  not modelled.
\<close>

type_synonym addr = nat

datatype dec = Dec int int

datatype jsval =
    JUndefined
  | JNull
  | JBool bool
  | JNum dec
  | JNaN
  | JInfinity
  | JNegInfinity
  | JStr string
  | JArr "jsval list"
  | JErr string
  | JObj addr
  | JFun addr

abbreviation JInt :: "int \<Rightarrow> jsval" where
  "JInt n \<equiv> JNum (Dec n 0)"

type_synonym jsobj = "string \<rightharpoonup> jsval"

fun dec_val :: "dec \<Rightarrow> rat" where
  "dec_val (Dec m e) =
     (if 0 \<le> e then of_int m * 10 ^ nat e else of_int m / 10 ^ nat (- e))"

text \<open>Truthiness, and \<^verbatim>\<open>a || b\<close> on values (the right operand is returned when the left
  one is falsy).\<close>

fun truthy :: "jsval \<Rightarrow> bool" where
  "truthy JUndefined = False"
| "truthy JNull = False"
| "truthy (JBool b) = b"
| "truthy (JNum (Dec m e)) = (m \<noteq> 0)"
| "truthy JNaN = False"
| "truthy (JStr s) = (s \<noteq> [])"
| "truthy v = True"

definition js_or :: "jsval \<Rightarrow> jsval \<Rightarrow> jsval" where
  "js_or a b = (if truthy a then a else b)"

subsection \<open>Conversion to strings\<close>

text \<open>
  Template literals convert their holes with ToString. For a finite number this is the
  language's \<^verbatim>\<open>Number::toString\<close>: with \<open>s\<close> the digits of the number without trailing
  zeros, \<open>k\<close> their count and \<open>n\<close> the position of the decimal point, the digits are
  printed plainly when \<open>-5 \<le> n \<le> 21\<close> (padded with zeros, or split by the point, or
  after \<^verbatim>\<open>0.\<close> and zeros) and in exponent form otherwise (\<^verbatim>\<open>1e-7\<close>, \<^verbatim>\<open>1.5e+21\<close>).
\<close>

definition digit_char :: "nat \<Rightarrow> char" where
  "digit_char d = char_of (48 + d)"

fun show_nat :: "nat \<Rightarrow> string" where
  "show_nat n = (if n < 10 then [digit_char n] else show_nat (n div 10) @ [digit_char (n mod 10)])"

declare show_nat.simps [simp del]

fun strip_zeros :: "nat \<Rightarrow> int \<Rightarrow> nat \<times> int" where
  "strip_zeros s e = (if s \<noteq> 0 \<and> s mod 10 = 0 then strip_zeros (s div 10) (e + 1) else (s, e))"

declare strip_zeros.simps [simp del]

definition show_digits :: "string \<Rightarrow> int \<Rightarrow> string" where
  "show_digits ds n =
     (let k = int (length ds) in
      if - 5 \<le> n \<and> n \<le> 21 then
        (if k \<le> n then ds @ replicate (nat (n - k)) (CHR ''0'')
         else if 0 < n then take (nat n) ds @ ''.'' @ drop (nat n) ds
         else ''0.'' @ replicate (nat (- n)) (CHR ''0'') @ ds)
      else
        (let x = n - 1;
             ex = ''e'' @ (if x < 0 then ''-'' else ''+'') @ show_nat (nat \<bar>x\<bar>)
         in if k = 1 then ds @ ex else take 1 ds @ ''.'' @ drop 1 ds @ ex))"

fun show_num :: "dec \<Rightarrow> string" where
  "show_num (Dec m e) =
     (if m = 0 then ''0''
      else (let (s, e') = strip_zeros (nat \<bar>m\<bar>) e; ds = show_nat s
            in (if m < 0 then ''-'' else []) @ show_digits ds (int (length ds) + e')))"

declare show_num.simps [simp del]

fun join_comma :: "string list \<Rightarrow> string" where
  "join_comma [] = []"
| "join_comma [s] = s"
| "join_comma (s # t # ss) = s @ '','' @ join_comma (t # ss)"

text \<open>
  An object converts through its own \<^verbatim>\<open>toString\<close>, which is code of the caller: what it
  returns for the object at an address is an input of the model, \<open>txt\<close> (for a plain
  object \<^verbatim>\<open>[object Object]\<close>, for a function its source text).
\<close>

fun to_string :: "(addr \<Rightarrow> string) \<Rightarrow> jsval \<Rightarrow> string" where
  "to_string txt JUndefined = ''undefined''"
| "to_string txt JNull = ''null''"
| "to_string txt (JBool b) = (if b then ''true'' else ''false'')"
| "to_string txt (JNum d) = show_num d"
| "to_string txt JNaN = ''NaN''"
| "to_string txt JInfinity = ''Infinity''"
| "to_string txt JNegInfinity = ''-Infinity''"
| "to_string txt (JStr s) = s"
| "to_string txt (JArr xs) =
     join_comma (map (\<lambda>v. if v = JUndefined \<or> v = JNull then [] else to_string txt v) xs)"
| "to_string txt (JErr m) = ''Error: '' @ m"
| "to_string txt (JObj a) = txt a"
| "to_string txt (JFun a) = txt a"

subsection \<open>Conversion to numbers and comparison\<close>

text \<open>
  \<^verbatim>\<open>percent < 0\<close> and \<^verbatim>\<open>percent > 100\<close> convert \<^verbatim>\<open>percent\<close> with ToNumber. A string is
  read as the language reads it: surrounding white space (the ASCII one) is dropped, the
  empty string is 0, then come \<^verbatim>\<open>0x\<close>, \<^verbatim>\<open>0o\<close> and \<^verbatim>\<open>0b\<close> integers, a signed \<^verbatim>\<open>Infinity\<close>,
  and signed decimals with an optional fraction and exponent; anything else is NaN.
\<close>

definition is_space :: "char \<Rightarrow> bool" where
  "is_space c = (c \<in> set [CHR 0x09, CHR 0x0A, CHR 0x0B, CHR 0x0C, CHR 0x0D, CHR 0x20])"

definition trim :: "string \<Rightarrow> string" where
  "trim s = rev (dropWhile is_space (rev (dropWhile is_space s)))"

definition digit_val :: "char \<Rightarrow> nat option" where
  "digit_val c =
     (let n = (of_char c :: nat) in
      if 48 \<le> n \<and> n \<le> 57 then Some (n - 48)
      else if 97 \<le> n \<and> n \<le> 102 then Some (n - 87)
      else if 65 \<le> n \<and> n \<le> 70 then Some (n - 55)
      else None)"

fun digits :: "nat \<Rightarrow> string \<Rightarrow> nat \<Rightarrow> nat option" where
  "digits r [] acc = Some acc"
| "digits r (c # cs) acc =
     (case digit_val c of
        None \<Rightarrow> None
      | Some d \<Rightarrow> if d < r then digits r cs (acc * r + d) else None)"

definition number_of :: "nat \<Rightarrow> string \<Rightarrow> nat option" where
  "number_of r s = (if s = [] then None else digits r s 0)"

definition signed_int :: "string \<Rightarrow> int option" where
  "signed_int x =
     (if take 1 x = ''+'' then map_option int (number_of 10 (drop 1 x))
      else if take 1 x = ''-'' then map_option (\<lambda>n. - int n) (number_of 10 (drop 1 x))
      else map_option int (number_of 10 x))"

definition split_at :: "(char \<Rightarrow> bool) \<Rightarrow> string \<Rightarrow> string \<times> string option" where
  "split_at P s =
     (takeWhile (\<lambda>c. \<not> P c) s,
      case dropWhile (\<lambda>c. \<not> P c) s of [] \<Rightarrow> None | c # r \<Rightarrow> Some r)"

definition decimal :: "string \<Rightarrow> dec option" where
  "decimal u =
     (let (ms, ex) = split_at (\<lambda>c. c = CHR ''e'' \<or> c = CHR ''E'') u;
          (ip, fp) = split_at (\<lambda>c. c = CHR ''.'') ms;
          fs = (case fp of None \<Rightarrow> [] | Some f \<Rightarrow> f)
      in if ip = [] \<and> fs = [] then None
         else (case digits 10 (ip @ fs) 0 of
                 None \<Rightarrow> None
               | Some m \<Rightarrow>
                   (case ex of
                      None \<Rightarrow> Some (Dec (int m) (- int (length fs)))
                    | Some x \<Rightarrow>
                        (case signed_int x of
                           None \<Rightarrow> None
                         | Some k \<Rightarrow> Some (Dec (int m) (k - int (length fs)))))))"

definition radix_int :: "nat \<Rightarrow> string \<Rightarrow> jsval" where
  "radix_int r s = (case number_of r s of None \<Rightarrow> JNaN | Some n \<Rightarrow> JInt (int n))"

definition str_to_number :: "string \<Rightarrow> jsval" where
  "str_to_number s =
     (let t = trim s in
      if t = [] then JInt 0
      else if take 2 t = ''0x'' \<or> take 2 t = ''0X'' then radix_int 16 (drop 2 t)
      else if take 2 t = ''0o'' \<or> take 2 t = ''0O'' then radix_int 8 (drop 2 t)
      else if take 2 t = ''0b'' \<or> take 2 t = ''0B'' then radix_int 2 (drop 2 t)
      else
        (let neg = (take 1 t = ''-'');
             u = (if take 1 t = ''-'' \<or> take 1 t = ''+'' then drop 1 t else t)
         in if u = ''Infinity'' then (if neg then JNegInfinity else JInfinity)
            else (case decimal u of
                    None \<Rightarrow> JNaN
                  | Some (Dec m x) \<Rightarrow> JNum (Dec (if neg then - m else m) x))))"

text \<open>
  ToNumber of a primitive; and of any value: an object converts through its
  \<^verbatim>\<open>valueOf\<close> when that returns a primitive (\<open>vals\<close>, an input like \<open>txt\<close>; \<open>None\<close> for the
  inherited \<^verbatim>\<open>valueOf\<close>, which returns the object) and through its string otherwise.
\<close>

fun prim_to_number :: "jsval \<Rightarrow> jsval" where
  "prim_to_number JUndefined = JNaN"
| "prim_to_number JNull = JInt 0"
| "prim_to_number (JBool b) = JInt (if b then 1 else 0)"
| "prim_to_number (JNum d) = JNum d"
| "prim_to_number JInfinity = JInfinity"
| "prim_to_number JNegInfinity = JNegInfinity"
| "prim_to_number (JStr s) = str_to_number s"
| "prim_to_number v = JNaN"

fun to_number :: "(addr \<Rightarrow> string) \<Rightarrow> (addr \<Rightarrow> jsval option) \<Rightarrow> jsval \<Rightarrow> jsval" where
  "to_number txt vals (JObj a) =
     (case vals a of Some p \<Rightarrow> prim_to_number p | None \<Rightarrow> str_to_number (txt a))"
| "to_number txt vals (JFun a) =
     (case vals a of Some p \<Rightarrow> prim_to_number p | None \<Rightarrow> str_to_number (txt a))"
| "to_number txt vals (JArr xs) = str_to_number (to_string txt (JArr xs))"
| "to_number txt vals (JErr m) = str_to_number (to_string txt (JErr m))"
| "to_number txt vals v = prim_to_number v"

text \<open>\<^verbatim>\<open>a < b\<close> on two numbers: false as soon as one of them is NaN.\<close>

fun num_lt :: "jsval \<Rightarrow> jsval \<Rightarrow> bool" where
  "num_lt (JNum a) (JNum b) = (dec_val a < dec_val b)"
| "num_lt (JNum a) JInfinity = True"
| "num_lt JNegInfinity (JNum b) = True"
| "num_lt JNegInfinity JInfinity = True"
| "num_lt a b = False"

section \<open>The store, the collaborators and the world\<close>

text \<open>
  Promises settle once: a second \<^verbatim>\<open>resolve\<close> or \<^verbatim>\<open>reject\<close> is ignored.
\<close>

datatype 'a promise = Pending | Fulfilled 'a | Rejected jsval

definition resolve :: "'a promise \<Rightarrow> 'a \<Rightarrow> 'a promise" where
  "resolve p v = (case p of Pending \<Rightarrow> Fulfilled v | _ \<Rightarrow> p)"

definition reject :: "'a promise \<Rightarrow> jsval \<Rightarrow> 'a promise" where
  "reject p e = (case p of Pending \<Rightarrow> Rejected e | _ \<Rightarrow> p)"

text \<open>\<^verbatim>\<open>p.then(f)\<close> for a handler \<open>f\<close> that returns a plain value.\<close>

definition then_p :: "'a promise \<Rightarrow> ('a \<Rightarrow> 'b) \<Rightarrow> 'b promise" where
  "then_p p f = (case p of Pending \<Rightarrow> Pending | Fulfilled v \<Rightarrow> Fulfilled (f v) | Rejected e \<Rightarrow> Rejected e)"

text \<open>
  The notifications a command object emits once it has been started, and what the world
  records of a started command: the instance it was started on and the arguments it was
  given (for \<^verbatim>\<open>screenshots\<close> the settings object as it is at the call; for \<^verbatim>\<open>run\<close> the input
  options, the output options and the output file).
\<close>

datatype event = EvFilenames "jsval list" | EvEnd | EvError jsval

datatype invocation =
    Screenshots nat jsobj
  | Run nat "string list" "string list" string

text \<open>
  The behaviour of everything outside the class is an input of the model: the
  notifications of the \<open>k\<close>-th started command, the \<open>k\<close>-th reading of the clock, what the
  \<open>k\<close>-th call of a completion function throws and what the \<open>k\<close>-th call of the deletion
  utility throws (\<open>None\<close>: it returns), and how the caller's objects convert to strings
  and to primitives.
\<close>

record env =
  engine :: "nat \<Rightarrow> event list"
  clock :: "nat \<Rightarrow> int"
  cb_throw :: "nat \<Rightarrow> jsval option"
  del_throw :: "nat \<Rightarrow> jsval option"
  obj_text :: "addr \<Rightarrow> string"
  obj_value :: "addr \<Rightarrow> jsval option"

text \<open>
  An object in the store: its properties (own, enumerable data properties; prototypes
  and accessors are not modelled), which of them are not writable, and whether
  properties can be added. \<^verbatim>\<open>Object.freeze\<close> makes every property read-only and the
  object not extensible.
\<close>

record cell =
  props :: jsobj
  readonly :: "string \<Rightarrow> bool"
  extensible :: bool

definition plain :: "jsobj \<Rightarrow> cell" where
  "plain ps = \<lparr> props = ps, readonly = (\<lambda>k. False), extensible = True \<rparr>"

record world =
  heap :: "addr \<rightharpoonup> cell"
  fresh :: addr
  instances :: "(jsval \<times> jsval) list"
  invocations :: "invocation list"
  deleted :: "(string list) list"
  cb_calls :: "(jsval \<times> jsval list) list"
  ticks :: nat

text \<open>Allocation; an object literal allocates a plain object.\<close>

definition new_cell :: "world \<Rightarrow> cell \<Rightarrow> jsval \<times> world" where
  "new_cell w c = (JObj (fresh w), w\<lparr>heap := (heap w)(fresh w \<mapsto> c), fresh := Suc (fresh w)\<rparr>)"

definition new_object :: "world \<Rightarrow> jsobj \<Rightarrow> jsval \<times> world" where
  "new_object w ps = new_cell w (plain ps)"

text \<open>
  The enumerable properties of a value: those of the object or function it refers to,
  the indexed characters of a string, the indexed elements of an array, none otherwise.
\<close>

definition enum_props :: "(addr \<rightharpoonup> cell) \<Rightarrow> jsval \<Rightarrow> jsobj" where
  "enum_props h v =
     (case v of
        JObj a \<Rightarrow> (case h a of Some c \<Rightarrow> props c | None \<Rightarrow> Map.empty)
      | JFun a \<Rightarrow> (case h a of Some c \<Rightarrow> props c | None \<Rightarrow> Map.empty)
      | JStr s \<Rightarrow> map_of (zip (map show_nat [0..<length s]) (map (\<lambda>c. JStr [c]) s))
      | JArr xs \<Rightarrow> map_of (zip (map show_nat [0..<length xs]) xs)
      | _ \<Rightarrow> Map.empty)"

text \<open>Reading \<^verbatim>\<open>v.k\<close> for the option keys of this program (none of them is an index or
  \<^verbatim>\<open>length\<close>): a missing property reads as \<^verbatim>\<open>undefined\<close>.\<close>

definition get_prop :: "(addr \<rightharpoonup> cell) \<Rightarrow> jsval \<Rightarrow> string \<Rightarrow> jsval" where
  "get_prop h v k =
     (case v of
        JObj a \<Rightarrow> (case enum_props h v k of Some x \<Rightarrow> x | None \<Rightarrow> JUndefined)
      | JFun a \<Rightarrow> (case enum_props h v k of Some x \<Rightarrow> x | None \<Rightarrow> JUndefined)
      | _ \<Rightarrow> JUndefined)"

text \<open>
  A plain assignment \<^verbatim>\<open>object[k] = v\<close>, as lodash performs it (outside strict mode): it
  is silently ignored when the property exists and is read-only, or does not exist and
  the object is not extensible. \<open>write_props\<close> assigns all the properties of a source.
\<close>

definition accepts :: "cell \<Rightarrow> string \<Rightarrow> bool" where
  "accepts c k = (case props c k of Some old \<Rightarrow> \<not> readonly c k | None \<Rightarrow> extensible c)"

definition write_props :: "cell \<Rightarrow> jsobj \<Rightarrow> cell" where
  "write_props c src =
     c\<lparr>props := (\<lambda>k. case src k of
                        None \<Rightarrow> props c k
                      | Some v \<Rightarrow> if accepts c k then Some v else props c k)\<rparr>"

text \<open>
  lodash's \<^verbatim>\<open>_.assignIn(object, source)\<close>: the first argument is turned into an object
  (\<^verbatim>\<open>Object(object)\<close>: an object is kept as it is, anything else is wrapped in a new one,
  a string with its read-only characters; an array, carried as a value here, is copied
  into the new object with its elements), a falsy source is skipped, and otherwise every
  enumerable property of the source is assigned to that object, in place. The object is
  returned.
\<close>

fun is_string :: "jsval \<Rightarrow> bool" where
  "is_string (JStr s) = True"
| "is_string v = False"

definition wrap :: "(addr \<rightharpoonup> cell) \<Rightarrow> jsval \<Rightarrow> cell" where
  "wrap h v =
     \<lparr> props = enum_props h v,
       readonly = (\<lambda>k. is_string v \<and> (k = ''length'' \<or> enum_props h v k \<noteq> None)),
       extensible = True \<rparr>"

definition to_object :: "world \<Rightarrow> jsval \<Rightarrow> jsval \<times> world" where
  "to_object w v =
     (case v of JObj a \<Rightarrow> (v, w) | JFun a \<Rightarrow> (v, w) | _ \<Rightarrow> new_cell w (wrap (heap w) v))"

definition ref_addr :: "jsval \<Rightarrow> addr" where
  "ref_addr v = (case v of JObj a \<Rightarrow> a | JFun a \<Rightarrow> a | _ \<Rightarrow> 0)"

definition cell_at :: "(addr \<rightharpoonup> cell) \<Rightarrow> jsval \<Rightarrow> cell" where
  "cell_at h v = (case h (ref_addr v) of Some c \<Rightarrow> c | None \<Rightarrow> plain Map.empty)"

definition assignIn :: "world \<Rightarrow> jsval \<Rightarrow> jsval \<Rightarrow> jsval \<times> world" where
  "assignIn w object source =
     (let (obj, w1) = to_object w object
      in if truthy source
         then (obj, w1\<lparr>heap := (heap w1)(ref_addr obj \<mapsto>
                        write_props (cell_at (heap w1) obj) (enum_props (heap w1) source))\<rparr>)
         else (obj, w1))"

section \<open>The generator\<close>

record generator =
  sourcePath :: jsval
  thumbnailPath :: jsval
  percent :: jsval
  logger :: jsval
  fileNameFormat :: jsval
  tmpDir :: jsval
  size_tg :: jsval

text \<open>
  The constructor reads its options object; reading a property of \<^verbatim>\<open>undefined\<close> or
  \<^verbatim>\<open>null\<close> throws a TypeError. It never assigns \<^verbatim>\<open>this.size\<close>, which \<^verbatim>\<open>generate\<close> reads.
\<close>

definition constructor :: "env \<Rightarrow> (addr \<rightharpoonup> cell) \<Rightarrow> jsval \<Rightarrow> jsval + generator" where
  "constructor e h opts =
     (if opts = JUndefined \<or> opts = JNull
      then Inl (JErr ''TypeError: Cannot read properties of undefined'')
      else Inr \<lparr> sourcePath = get_prop h opts ''sourcePath'',
                 thumbnailPath = get_prop h opts ''thumbnailPath'',
                 percent = js_or (JStr (to_string (obj_text e) (get_prop h opts ''percent'') @ ''%''))
                                 (JStr ''90%''),
                 logger = js_or (get_prop h opts ''logger'') JNull,
                 fileNameFormat = JStr ''%b-thumbnail-%r-%000i'',
                 tmpDir = js_or (get_prop h opts ''tmpDir'') (JStr ''/tmp''),
                 size_tg = JUndefined \<rparr>)"

definition getFfmpegInstance :: "world \<Rightarrow> generator \<Rightarrow> nat \<times> world" where
  "getFfmpegInstance w g =
     (length (instances w), w\<lparr>instances := instances w @ [(sourcePath g, logger g)]\<rparr>)"

text \<open>Starting a command records it and yields the notifications it will emit.\<close>

definition start_command :: "env \<Rightarrow> world \<Rightarrow> invocation \<Rightarrow> event list \<times> world" where
  "start_command e w cmd =
     (engine e (length (invocations w)), w\<lparr>invocations := invocations w @ [cmd]\<rparr>)"

definition Date_now :: "env \<Rightarrow> world \<Rightarrow> int \<times> world" where
  "Date_now e w = (clock e (ticks w), w\<lparr>ticks := Suc (ticks w)\<rparr>)"

subsection \<open>generate\<close>

text \<open>
  The three handlers of \<^verbatim>\<open>generate\<close>, run over the notifications in the order they
  arrive: \<^verbatim>\<open>filenames\<close> stores the names, \<^verbatim>\<open>end\<close> resolves with the stored names,
  \<^verbatim>\<open>error\<close> rejects.
\<close>

fun screenshots_events :: "event list \<Rightarrow> jsval list \<Rightarrow> jsval list promise \<Rightarrow> jsval list promise" where
  "screenshots_events [] filenameArray p = p"
| "screenshots_events (EvFilenames fns # evs) filenameArray p = screenshots_events evs fns p"
| "screenshots_events (EvEnd # evs) filenameArray p =
     screenshots_events evs filenameArray (resolve p filenameArray)"
| "screenshots_events (EvError err # evs) filenameArray p =
     screenshots_events evs filenameArray (reject p err)"

definition defaultSettings :: "generator \<Rightarrow> jsobj" where
  "defaultSettings g =
     [''folder'' \<mapsto> thumbnailPath g, ''count'' \<mapsto> JInt 10, ''size'' \<mapsto> size_tg g,
      ''filename'' \<mapsto> fileNameFormat g, ''logger'' \<mapsto> logger g]"

definition generate :: "env \<Rightarrow> world \<Rightarrow> generator \<Rightarrow> jsval \<Rightarrow> jsval list promise \<times> world" where
  "generate e w g opts =
     (let (template, w1) = new_object w (defaultSettings g);
          (ffmpeg, w2) = getFfmpegInstance w1 g;
          (settings, w3) = assignIn w2 template opts;
          (evs, w4) = start_command e w3 (Screenshots ffmpeg (enum_props (heap w3) settings))
      in (screenshots_events evs [] Pending, w4))"

subsection \<open>generateOneByPercent\<close>

text \<open>\<^verbatim>\<open>result.pop()\<close>: the last element, \<^verbatim>\<open>undefined\<close> for an empty array.\<close>

definition pop :: "jsval list \<Rightarrow> jsval" where
  "pop xs = (if xs = [] then JUndefined else last xs)"

text \<open>
  The guard \<^verbatim>\<open>percent < 0 || percent > 100\<close> compares the numeric value of \<^verbatim>\<open>percent\<close>;
  both comparisons are false for NaN, hence for \<^verbatim>\<open>undefined\<close> and for a string that is
  not a number. The timestamp is the template \<^verbatim>\<open>`${percent}%`\<close>.
\<close>

definition generateOneByPercent ::
  "env \<Rightarrow> world \<Rightarrow> generator \<Rightarrow> jsval \<Rightarrow> jsval \<Rightarrow> jsval promise \<times> world" where
  "generateOneByPercent e w g pct opts =
     (if num_lt (to_number (obj_text e) (obj_value e) pct) (JInt 0)
         \<or> num_lt (JInt 100) (to_number (obj_text e) (obj_value e) pct)
      then (Rejected (JErr ''Percent must be a value from 0-100''), w)
      else
        (let (lit, w1) = new_object w [''count'' \<mapsto> JInt 1,
                                       ''timestamps'' \<mapsto> JArr [JStr (to_string (obj_text e) pct @ ''%'')]];
             (opts', w2) = assignIn w1 opts lit;
             (p, w3) = generate e w2 g opts'
         in (then_p p pop, w3)))"

subsection \<open>generatePalette\<close>

definition defaultOpts_palette :: jsobj where
  "defaultOpts_palette = [''videoFilters'' \<mapsto> JStr ''fps=10,scale=320:-1:flags=lanczos,palettegen'']"

text \<open>
  Both \<^verbatim>\<open>generatePalette\<close> and \<^verbatim>\<open>createGif\<close> push \<^verbatim>\<open>-ss <offset>\<close> and
  \<^verbatim>\<open>-t <duration>\<close> onto their input options when the merged options hold a truthy
  value under these keys.
\<close>

definition push_seek :: "env \<Rightarrow> (addr \<rightharpoonup> cell) \<Rightarrow> jsval \<Rightarrow> string list \<Rightarrow> string list" where
  "push_seek e h conf inputOptions =
     (let offset = get_prop h conf ''offset'';
          duration = get_prop h conf ''duration'';
          io1 = (if truthy offset then inputOptions @ [''-ss '' @ to_string (obj_text e) offset]
                 else inputOptions)
      in (if truthy duration then io1 @ [''-t '' @ to_string (obj_text e) duration] else io1))"

text \<open>The handlers of a command started with \<^verbatim>\<open>run\<close> by \<^verbatim>\<open>generatePalette\<close>:
  \<^verbatim>\<open>end\<close> resolves with the output path, \<^verbatim>\<open>error\<close> rejects; no other
  notification has a handler.\<close>

fun run_events :: "event list \<Rightarrow> string \<Rightarrow> string promise \<Rightarrow> string promise" where
  "run_events [] output p = p"
| "run_events (EvEnd # evs) output p = run_events evs output (resolve p output)"
| "run_events (EvError err # evs) output p = run_events evs output (reject p err)"
| "run_events (EvFilenames fns # evs) output p = run_events evs output p"

definition generatePalette :: "env \<Rightarrow> world \<Rightarrow> generator \<Rightarrow> jsval \<Rightarrow> string promise \<times> world" where
  "generatePalette e w g opts =
     (let (ffmpeg, w1) = getFfmpegInstance w g;
          (template, w2) = new_object w1 defaultOpts_palette;
          (conf, w3) = assignIn w2 template opts;
          outputOptions = [''-vf '' @ to_string (obj_text e) (get_prop (heap w3) conf ''videoFilters'')];
          (now, w4) = Date_now e w3;
          output = to_string (obj_text e) (tmpDir g) @ ''/palette-'' @ show_num (Dec now 0) @ ''.png'';
          inputOptions = push_seek e (heap w4) conf [''-y''];
          (evs, w5) = start_command e w4 (Run ffmpeg inputOptions outputOptions output)
      in (run_events evs output Pending, w5))"

subsection \<open>generateGif\<close>

definition defaultOpts_gif :: jsobj where
  "defaultOpts_gif =
     [''fps'' \<mapsto> JNum (Dec 75 (- 2)), ''scale'' \<mapsto> JInt 180, ''speedMultiplier'' \<mapsto> JInt 4,
      ''deletePalette'' \<mapsto> JBool True]"

text \<open>
  The \<^verbatim>\<open>end\<close> handler of the gif command, \<^verbatim>\<open>complete\<close>: when the merged
  \<^verbatim>\<open>deletePalette\<close> is strictly equal to \<^verbatim>\<open>true\<close> it calls \<^verbatim>\<open>del.sync\<close> on the palette
  file (recorded in \<open>deleted\<close>), then it resolves with the output path. When the deletion
  throws, the handler is left before \<^verbatim>\<open>resolve\<close> and the promise stays as it was.
\<close>

definition complete_gif ::
  "env \<Rightarrow> jsval \<Rightarrow> string \<Rightarrow> string \<Rightarrow> string promise \<times> world \<Rightarrow> string promise \<times> world" where
  "complete_gif e conf paletteFilePath output pw =
     (if get_prop (heap (snd pw)) conf ''deletePalette'' = JBool True
      then (case del_throw e (length (deleted (snd pw))) of
              None \<Rightarrow> (resolve (fst pw) output,
                       (snd pw)\<lparr>deleted := deleted (snd pw) @ [[paletteFilePath]]\<rparr>)
            | Some thrown \<Rightarrow> (fst pw, (snd pw)\<lparr>deleted := deleted (snd pw) @ [[paletteFilePath]]\<rparr>))
      else (resolve (fst pw) output, snd pw))"

fun gif_events ::
  "env \<Rightarrow> event list \<Rightarrow> jsval \<Rightarrow> string \<Rightarrow> string \<Rightarrow> string promise \<times> world \<Rightarrow> string promise \<times> world" where
  "gif_events e [] conf pal output pw = pw"
| "gif_events e (EvEnd # evs) conf pal output pw =
     gif_events e evs conf pal output (complete_gif e conf pal output pw)"
| "gif_events e (EvError err # evs) conf pal output pw =
     gif_events e evs conf pal output (reject (fst pw) err, snd pw)"
| "gif_events e (EvFilenames fns # evs) conf pal output pw = gif_events e evs conf pal output pw"

definition createGif ::
  "env \<Rightarrow> world \<Rightarrow> nat \<Rightarrow> jsval \<Rightarrow> string list \<Rightarrow> string \<Rightarrow> string \<Rightarrow> string promise \<times> world" where
  "createGif e w ffmpeg conf outputOptions output paletteFilePath =
     (let inputOptions = push_seek e (heap w) conf [];
          outputOptions' = (''-i '' @ paletteFilePath) # outputOptions;
          (evs, w1) = start_command e w (Run ffmpeg inputOptions outputOptions' output)
      in gif_events e evs conf paletteFilePath output (Pending, w1))"

definition generateGif :: "env \<Rightarrow> world \<Rightarrow> generator \<Rightarrow> jsval \<Rightarrow> string promise \<times> world" where
  "generateGif e w g opts =
     (let (ffmpeg, w1) = getFfmpegInstance w g;
          (template, w2) = new_object w1 defaultOpts_gif;
          (conf, w3) = assignIn w2 template opts;
          outputOptions =
            [''-filter_complex fps='' @ to_string (obj_text e) (get_prop (heap w3) conf ''fps'') @
             '',setpts=(1/'' @ to_string (obj_text e) (get_prop (heap w3) conf ''speedMultiplier'') @
             '')*PTS,scale='' @ to_string (obj_text e) (get_prop (heap w3) conf ''scale'') @
             '':-1:flags=lanczos[x];[x][1:v]paletteuse''];
          fileName = get_prop (heap w3) conf ''fileName'';
          (outputFileName, w4) =
            (if truthy fileName then (to_string (obj_text e) fileName, w3)
             else (let (now, w') = Date_now e w3
                   in (''video-'' @ show_num (Dec now 0) @ ''.gif'', w')));
          output = to_string (obj_text e) (thumbnailPath g) @ ''/'' @ outputFileName;
          (palette, w5) = generatePalette e w4 g JUndefined
      in (case palette of
            Fulfilled paletteFilePath \<Rightarrow> createGif e w5 ffmpeg conf outputOptions output paletteFilePath
          | Rejected err \<Rightarrow> (Rejected err, w5)
          | Pending \<Rightarrow> (Pending, w5)))"

subsection \<open>The callback-style adapters\<close>

text \<open>
  Calling a value: a function is called (the call is recorded, and it returns or throws
  as the environment says); calling anything else throws a TypeError.
\<close>

definition call_fn :: "env \<Rightarrow> world \<Rightarrow> jsval \<Rightarrow> jsval list \<Rightarrow> jsval option \<times> world" where
  "call_fn e w f args =
     (case f of
        JFun a \<Rightarrow> (cb_throw e (length (cb_calls w)), w\<lparr>cb_calls := cb_calls w @ [(f, args)]\<rparr>)
      | _ \<Rightarrow> (Some (JErr ''TypeError: callback is not a function''), w))"

text \<open>
  \<^verbatim>\<open>p.then(result => callback(null, result)).catch(callback)\<close>: the \<^verbatim>\<open>catch\<close> handler
  receives the rejection of \<open>p\<close> and also whatever the \<^verbatim>\<open>then\<close> handler throws, and
  calls \<^verbatim>\<open>callback\<close> with that single argument.
\<close>

definition then_callback :: "env \<Rightarrow> world \<Rightarrow> jsval promise \<Rightarrow> jsval \<Rightarrow> world" where
  "then_callback e w p callback =
     (case p of
        Pending \<Rightarrow> w
      | Fulfilled result \<Rightarrow>
          (case call_fn e w callback [JNull, result] of
             (None, w1) \<Rightarrow> w1
           | (Some thrown, w1) \<Rightarrow> snd (call_fn e w1 callback [thrown]))
      | Rejected err \<Rightarrow> snd (call_fn e w callback [err]))"

definition generateOneByPercentCb ::
  "env \<Rightarrow> world \<Rightarrow> generator \<Rightarrow> jsval \<Rightarrow> jsval \<Rightarrow> jsval \<Rightarrow> world" where
  "generateOneByPercentCb e w g pct opts cb =
     (let callback = js_or cb opts;
          (p, w1) = generateOneByPercent e w g pct opts
      in then_callback e w1 p callback)"

definition generateCb :: "env \<Rightarrow> world \<Rightarrow> generator \<Rightarrow> jsval \<Rightarrow> jsval \<Rightarrow> world" where
  "generateCb e w g opts cb =
     (let callback = js_or cb opts;
          (p, w1) = generate e w g opts
      in then_callback e w1 (then_p p JArr) callback)"

definition generatePaletteCb :: "env \<Rightarrow> world \<Rightarrow> generator \<Rightarrow> jsval \<Rightarrow> jsval \<Rightarrow> world" where
  "generatePaletteCb e w g opts cb =
     (let callback = js_or cb opts;
          (p, w1) = generatePalette e w g opts
      in then_callback e w1 (then_p p JStr) callback)"

definition generateGifCb :: "env \<Rightarrow> world \<Rightarrow> generator \<Rightarrow> jsval \<Rightarrow> jsval \<Rightarrow> world" where
  "generateGifCb e w g opts cb =
     (let callback = js_or cb opts;
          (p, w1) = generateGif e w g opts
      in then_callback e w1 (then_p p JStr) callback)"

section \<open>Notions for the statements, and sample inputs\<close>

text \<open>
  A reference handed to the generator is well formed when it points below the
  allocation mark: objects the caller made exist before the call.
\<close>

fun allocated :: "addr \<Rightarrow> jsval \<Rightarrow> bool" where
  "allocated n (JObj a) = (a < n)"
| "allocated n (JFun a) = (a < n)"
| "allocated n v = True"

definition valid_ref :: "world \<Rightarrow> jsval \<Rightarrow> bool" where
  "valid_ref w v = allocated (fresh w) v"

definition is_ref :: "jsval \<Rightarrow> bool" where
  "is_ref v = (case v of JObj a \<Rightarrow> True | JFun a \<Rightarrow> True | _ \<Rightarrow> False)"






text \<open>
  What a merge resolves to: the defaults, overridden by the enumerable properties of a
  truthy options value.
\<close>

definition merged :: "jsobj \<Rightarrow> world \<Rightarrow> jsval \<Rightarrow> jsobj" where
  "merged defaults w opts = (if truthy opts then defaults ++ enum_props (heap w) opts else defaults)"

text \<open>
  Names for the parts of a \<^verbatim>\<open>generateGif\<close> run, as functions of the world the call starts
  in: the merged options, the clock reading the palette step takes (one later when the
  gif file name was taken from the clock), the palette path, the gif path, the filter
  option, and the world once the palette command has been started.
\<close>

definition palette_path :: "env \<Rightarrow> generator \<Rightarrow> nat \<Rightarrow> string" where
  "palette_path e g t =
     to_string (obj_text e) (tmpDir g) @ ''/palette-'' @ show_num (Dec (clock e t) 0) @ ''.png''"

definition gif_conf :: "world \<Rightarrow> jsval \<Rightarrow> string \<Rightarrow> jsval" where
  "gif_conf w opts k = (case merged defaultOpts_gif w opts k of Some x \<Rightarrow> x | None \<Rightarrow> JUndefined)"

definition gif_tick :: "world \<Rightarrow> jsval \<Rightarrow> nat" where
  "gif_tick w opts = (if truthy (gif_conf w opts ''fileName'') then ticks w else Suc (ticks w))"

definition gif_output :: "env \<Rightarrow> world \<Rightarrow> generator \<Rightarrow> jsval \<Rightarrow> string" where
  "gif_output e w g opts =
     to_string (obj_text e) (thumbnailPath g) @ ''/'' @
     (if truthy (gif_conf w opts ''fileName'') then to_string (obj_text e) (gif_conf w opts ''fileName'')
      else ''video-'' @ show_num (Dec (clock e (ticks w)) 0) @ ''.gif'')"

definition gif_filter :: "env \<Rightarrow> world \<Rightarrow> jsval \<Rightarrow> string list" where
  "gif_filter e w opts =
     [''-filter_complex fps='' @ to_string (obj_text e) (gif_conf w opts ''fps'') @
      '',setpts=(1/'' @ to_string (obj_text e) (gif_conf w opts ''speedMultiplier'') @
      '')*PTS,scale='' @ to_string (obj_text e) (gif_conf w opts ''scale'') @
      '':-1:flags=lanczos[x];[x][1:v]paletteuse'']"

definition gif_world :: "env \<Rightarrow> world \<Rightarrow> generator \<Rightarrow> jsval \<Rightarrow> world" where
  "gif_world e w g opts =
     w\<lparr>heap := (heap w)(fresh w \<mapsto> plain (merged defaultOpts_gif w opts),
                        Suc (fresh w) \<mapsto> plain defaultOpts_palette),
       fresh := Suc (Suc (fresh w)),
       instances := instances w @ [(sourcePath g, logger g), (sourcePath g, logger g)],
       ticks := Suc (gif_tick w opts),
       invocations := invocations w @
         [Run (Suc (length (instances w))) [''-y'']
            [''-vf fps=10,scale=320:-1:flags=lanczos,palettegen''] (palette_path e g (gif_tick w opts))]\<rparr>"

text \<open>
  Two successive calls of one operation, from \<open>w\<close> to \<open>w1\<close> with options \<open>opts\<close> and from
  \<open>w1\<close> to \<open>w2\<close> with options \<open>opts'\<close>, merge independently when: the object the first
  call allocated holds the defaults merged with \<open>opts\<close>, and still does after the second
  call; the object the second call allocated holds the defaults merged with \<open>opts'\<close>, as
  if the first call had not happened; and the caller's option objects are as they were.
\<close>

definition independent_merges :: "jsobj \<Rightarrow> world \<Rightarrow> world \<Rightarrow> world \<Rightarrow> jsval \<Rightarrow> jsval \<Rightarrow> bool" where
  "independent_merges d w w1 w2 opts opts' =
     (map_option props (heap w1 (fresh w)) = Some (merged d w opts) \<and>
      map_option props (heap w2 (fresh w1)) = Some (merged d w opts') \<and>
      map_option props (heap w2 (fresh w)) = Some (merged d w opts) \<and>
      enum_props (heap w2) opts = enum_props (heap w) opts \<and>
      enum_props (heap w2) opts' = enum_props (heap w) opts')"

text \<open>
  What an adapter does with the completion function \<open>cb\<close>, from the world \<open>w\<close> of the call
  to the world \<open>w'\<close> it ends in, given the promise \<open>p\<close> of the underlying operation: on
  fulfilment the first call it adds is \<^verbatim>\<open>(null, result)\<close>, and it is the only one when it
  returns; on rejection one call with the error as its only argument; no call while the
  promise is pending.
\<close>

definition answers :: "env \<Rightarrow> world \<Rightarrow> jsval \<Rightarrow> jsval promise \<Rightarrow> world \<Rightarrow> bool" where
  "answers e w cb p w' =
     (case p of
        Fulfilled result \<Rightarrow>
          take (Suc (length (cb_calls w))) (cb_calls w') = cb_calls w @ [(cb, [JNull, result])] \<and>
          (cb_throw e (length (cb_calls w)) = None \<longrightarrow>
             cb_calls w' = cb_calls w @ [(cb, [JNull, result])])
      | Rejected err \<Rightarrow> cb_calls w' = cb_calls w @ [(cb, [err])]
      | Pending \<Rightarrow> cb_calls w' = cb_calls w)"

text \<open>
  Sample inputs for the concrete checks: a store holding a constructor options object
  (address 0), a caller options object (address 1), a completion function (address 2)
  and a frozen options object (address 3); an engine whose commands all report two file
  names and then succeed, one whose commands just succeed, and one whose commands all
  fail.
\<close>

definition frozen :: "jsobj \<Rightarrow> cell" where
  "frozen ps = \<lparr> props = ps, readonly = (\<lambda>k. True), extensible = False \<rparr>"

definition w_demo :: world where
  "w_demo = \<lparr> heap = [0 \<mapsto> plain [''sourcePath'' \<mapsto> JStr ''/v/in.mp4'',
                                   ''thumbnailPath'' \<mapsto> JStr ''/v/out''],
                      1 \<mapsto> plain [''count'' \<mapsto> JInt 5, ''deletePalette'' \<mapsto> JInt 1],
                      2 \<mapsto> plain Map.empty,
                      3 \<mapsto> frozen [''count'' \<mapsto> JInt 5]],
               fresh = 4, instances = [], invocations = [], deleted = [], cb_calls = [],
               ticks = 0 \<rparr>"

definition opts_demo :: jsval where
  "opts_demo = JObj 1"

definition cb_demo :: jsval where
  "cb_demo = JFun 2"

definition frozen_demo :: jsval where
  "frozen_demo = JObj 3"

definition g_demo :: generator where
  "g_demo = \<lparr> sourcePath = JStr ''/v/in.mp4'', thumbnailPath = JStr ''/v/out'',
               percent = JStr ''undefined%'', logger = JNull,
               fileNameFormat = JStr ''%b-thumbnail-%r-%000i'', tmpDir = JStr ''/tmp'',
               size_tg = JUndefined \<rparr>"

definition e_ok :: env where
  "e_ok = \<lparr> engine = (\<lambda>k. [EvFilenames [JStr ''a.png'', JStr ''b.png''], EvEnd]),
             clock = (\<lambda>k. 1700000000000),
             cb_throw = (\<lambda>k. None), del_throw = (\<lambda>k. None),
             obj_text = (\<lambda>a. ''[object Object]''), obj_value = (\<lambda>a. None) \<rparr>"

definition e_run :: env where
  "e_run = \<lparr> engine = (\<lambda>k. [EvEnd]),
              clock = (\<lambda>k. 1700000000000),
              cb_throw = (\<lambda>k. None), del_throw = (\<lambda>k. None),
              obj_text = (\<lambda>a. ''[object Object]''), obj_value = (\<lambda>a. None) \<rparr>"

definition e_fail :: env where
  "e_fail = \<lparr> engine = (\<lambda>k. [EvError (JErr ''ffmpeg exited with code 1'')]),
               clock = (\<lambda>k. 1700000000000),
               cb_throw = (\<lambda>k. None), del_throw = (\<lambda>k. None),
               obj_text = (\<lambda>a. ''[object Object]''), obj_value = (\<lambda>a. None) \<rparr>"

section \<open>Facts about the store and the merge utility\<close>

lemma valid_ref_upd [simp]:
  "valid_ref (w\<lparr>heap := h\<rparr>) v = valid_ref w v"
  "valid_ref (w\<lparr>instances := i\<rparr>) v = valid_ref w v"
  "valid_ref (w\<lparr>invocations := c\<rparr>) v = valid_ref w v"
  "valid_ref (w\<lparr>deleted := d\<rparr>) v = valid_ref w v"
  "valid_ref (w\<lparr>cb_calls := cs\<rparr>) v = valid_ref w v"
  "valid_ref (w\<lparr>ticks := t\<rparr>) v = valid_ref w v"
  by (simp_all add: valid_ref_def)

lemma valid_ref_mono:
  "valid_ref w v \<Longrightarrow> fresh w \<le> fresh w' \<Longrightarrow> valid_ref w' v"
  by (cases v) (simp_all add: valid_ref_def)

lemma valid_ref_new [simp]: "valid_ref (w\<lparr>fresh := Suc n\<rparr>) (JObj n)"
  by (simp add: valid_ref_def)


lemma enum_props_above:
  "valid_ref w v \<Longrightarrow> fresh w \<le> a \<Longrightarrow> enum_props (h(a \<mapsto> c)) v = enum_props h v"
  by (cases v) (simp_all add: enum_props_def valid_ref_def)

lemma enum_props_new:
  "valid_ref w v \<Longrightarrow> enum_props ((heap w)(fresh w \<mapsto> c)) v = enum_props (heap w) v"
  by (simp add: enum_props_above)

lemma enum_props_at [simp]: "enum_props (h(a \<mapsto> c)) (JObj a) = props c"
  by (simp add: enum_props_def)


lemma enum_props_nonref: "\<not> is_ref v \<Longrightarrow> enum_props h v = enum_props h' v"
  by (cases v) (simp_all add: enum_props_def is_ref_def)

lemma cell_at_at [simp]: "cell_at (h(a \<mapsto> c)) (JObj a) = c"
  by (simp add: cell_at_def ref_addr_def)



lemma accepts_plain [simp]: "accepts (plain d) k"
  by (simp add: accepts_def plain_def split: option.splits)

lemma write_props_plain [simp]: "write_props (plain d) src = plain (d ++ src)"
  by (auto simp: write_props_def plain_def map_add_def accepts_def split: option.splits)

lemma props_plain [simp]: "props (plain d) = d"
  by (simp add: plain_def)


lemma write_props_attrs [simp]:
  "readonly (write_props c src) = readonly c" "extensible (write_props c src) = extensible c"
  by (simp_all add: write_props_def)

lemma to_object_ref: "is_ref v \<Longrightarrow> to_object w v = (v, w)"
  by (cases v) (simp_all add: to_object_def is_ref_def)


lemma assignIn_ref:
  "is_ref obj \<Longrightarrow> assignIn w obj src =
     (obj, if truthy src
           then w\<lparr>heap := (heap w)(ref_addr obj \<mapsto>
                    write_props (cell_at (heap w) obj) (enum_props (heap w) src))\<rparr>
           else w)"
  by (simp add: assignIn_def to_object_ref)






lemma to_object_log:
  "invocations (snd (to_object w obj)) = invocations w"
  "instances (snd (to_object w obj)) = instances w"
  "cb_calls (snd (to_object w obj)) = cb_calls w"
  by (cases obj, simp_all add: to_object_def new_cell_def)+

lemma assignIn_log:
  "invocations (snd (assignIn w obj src)) = invocations w"
  "instances (snd (assignIn w obj src)) = instances w"
  "cb_calls (snd (assignIn w obj src)) = cb_calls w"
  by (simp_all add: assignIn_def split_def Let_def to_object_log)

section \<open>Facts about the handlers and about printing numbers\<close>

lemma screenshots_events_settled:
  "p \<noteq> Pending \<Longrightarrow> screenshots_events evs arr p = p"
  by (induction evs arr p rule: screenshots_events.induct)
     (simp_all add: resolve_def reject_def split: promise.splits)

lemma run_events_settled: "p \<noteq> Pending \<Longrightarrow> run_events evs out p = p"
  by (induction evs out p rule: run_events.induct)
     (simp_all add: resolve_def reject_def split: promise.splits)

lemma run_events_fulfilled:
  "run_events evs out p = Fulfilled v \<Longrightarrow> p = Fulfilled v \<or> v = out"
  by (induction evs out p rule: run_events.induct)
     (auto simp: resolve_def reject_def split: promise.splits)

lemma get_prop_at [simp]:
  "get_prop (h(a \<mapsto> c)) (JObj a) k = (case props c k of Some x \<Rightarrow> x | None \<Rightarrow> JUndefined)"
  by (simp add: get_prop_def)

lemma valid_ref_undefined [simp]: "valid_ref w JUndefined"
  by (simp add: valid_ref_def)

lemma merged_undefined [simp]: "merged d w JUndefined = d"
  by (simp add: merged_def)

lemma digit_char_simps:
  "digit_char 0 = CHR ''0''" "digit_char 1 = CHR ''1''" "digit_char 2 = CHR ''2''"
  "digit_char 3 = CHR ''3''" "digit_char 4 = CHR ''4''" "digit_char 5 = CHR ''5''"
  "digit_char 6 = CHR ''6''" "digit_char 7 = CHR ''7''" "digit_char 8 = CHR ''8''"
  "digit_char 9 = CHR ''9''" "digit_char (Suc 0) = CHR ''1''"
  by code_simp+

lemma replicate_step: "0 < n \<Longrightarrow> replicate n c = c # replicate (n - 1) c"
  by (cases n) simp_all

lemma show_num_samples:
  "show_num (Dec 0 0) = ''0''" "show_num (Dec 100 0) = ''100''"
  "show_num (Dec 1700000000000 0) = ''1700000000000''"
  "show_num (Dec 1 (- 7)) = ''1e-7''"
  by (simp_all add: show_num.simps strip_zeros.simps show_nat.simps digit_char_simps
      show_digits_def replicate_step)

section \<open>generate, unfolded\<close>

lemma generate_eq:
  "valid_ref w opts \<Longrightarrow> generate e w g opts =
    (screenshots_events (engine e (length (invocations w))) [] Pending,
     w\<lparr>heap := (heap w)(fresh w \<mapsto> plain (merged (defaultSettings g) w opts)), fresh := Suc (fresh w),
       instances := instances w @ [(sourcePath g, logger g)],
       invocations := invocations w @
          [Screenshots (length (instances w)) (merged (defaultSettings g) w opts)]\<rparr>)"
  by (simp add: generate_def new_object_def new_cell_def getFfmpegInstance_def assignIn_ref is_ref_def
      start_command_def ref_addr_def enum_props_new merged_def)

lemma generatePalette_eq:
  "valid_ref w opts \<Longrightarrow> generatePalette e w g opts =
    (run_events (engine e (length (invocations w))) (palette_path e g (ticks w)) Pending,
     w\<lparr>heap := (heap w)(fresh w \<mapsto> plain (merged defaultOpts_palette w opts)), fresh := Suc (fresh w),
       instances := instances w @ [(sourcePath g, logger g)],
       ticks := Suc (ticks w),
       invocations := invocations w @
          [Run (length (instances w))
             (push_seek e ((heap w)(fresh w \<mapsto> plain (merged defaultOpts_palette w opts))) (JObj (fresh w)) [''-y''])
             [''-vf '' @ to_string (obj_text e) (case merged defaultOpts_palette w opts ''videoFilters'' of
                                      Some x \<Rightarrow> x | None \<Rightarrow> JUndefined)]
             (palette_path e g (ticks w))]\<rparr>)"
  by (simp add: generatePalette_def new_object_def new_cell_def getFfmpegInstance_def assignIn_ref is_ref_def
      start_command_def Date_now_def ref_addr_def enum_props_new merged_def Let_def palette_path_def)

section \<open>generateGif, unfolded\<close>

lemma push_seek_defaults [simp]:
  "push_seek e (h(a \<mapsto> plain defaultOpts_palette)) (JObj a) io = io"
  by (simp add: push_seek_def defaultOpts_palette_def)

lemma defaultOpts_palette_simps [simp]:
  "defaultOpts_palette ''videoFilters'' = Some (JStr ''fps=10,scale=320:-1:flags=lanczos,palettegen'')"
  by (simp add: defaultOpts_palette_def)

lemma generateGif_eq:
  assumes "valid_ref w opts"
  shows "generateGif e w g opts =
       (case run_events (engine e (length (invocations w))) (palette_path e g (gif_tick w opts)) Pending of
          Fulfilled p \<Rightarrow> createGif e (gif_world e w g opts) (length (instances w)) (JObj (fresh w))
                          (gif_filter e w opts) (gif_output e w g opts) p
        | Rejected err \<Rightarrow> (Rejected err, gif_world e w g opts)
        | Pending \<Rightarrow> (Pending, gif_world e w g opts))"
  using assms
  by (cases "truthy opts"; cases "truthy (gif_conf w opts ''fileName'')")
     (simp_all add: generateGif_def new_object_def new_cell_def getFfmpegInstance_def assignIn_ref
        is_ref_def ref_addr_def enum_props_new merged_def
        Date_now_def Let_def split_def generatePalette_eq
        gif_tick_def gif_conf_def
        gif_world_def gif_filter_def gif_output_def
        cong: promise.case_cong)

lemma gif_events_settled:
  "fst pw \<noteq> Pending \<Longrightarrow> fst (gif_events e evs conf pal out pw) = fst pw"
  by (induction e evs conf pal out pw rule: gif_events.induct)
     (auto simp: complete_gif_def resolve_def reject_def split: promise.splits option.splits)

lemma gif_events_frame:
  "heap (snd (gif_events e evs conf pal out pw)) = heap (snd pw)"
  "fresh (snd (gif_events e evs conf pal out pw)) = fresh (snd pw)"
  "invocations (snd (gif_events e evs conf pal out pw)) = invocations (snd pw)"
  "instances (snd (gif_events e evs conf pal out pw)) = instances (snd pw)"
  "cb_calls (snd (gif_events e evs conf pal out pw)) = cb_calls (snd pw)"
  by (induction e evs conf pal out pw rule: gif_events.induct;
      simp add: complete_gif_def split: option.splits)+

lemma gif_events_deleted:
  "deleted (snd (gif_events e evs conf pal out pw)) =
     deleted (snd pw) @
     (if get_prop (heap (snd pw)) conf ''deletePalette'' = JBool True
      then replicate (count_list evs EvEnd) [pal] else [])"
  by (induction e evs conf pal out pw rule: gif_events.induct)
     (simp_all add: complete_gif_def replicate_app_Cons_same split: option.splits)

lemma complete_gif_fulfils:
  "get_prop (heap w) conf ''deletePalette'' \<noteq> JBool True \<or> del_throw e (length (deleted w)) = None \<Longrightarrow>
   fst (complete_gif e conf pal out (Pending, w)) = Fulfilled out"
  by (auto simp: complete_gif_def resolve_def)

lemma createGif_eq:
  "createGif e w i conf oo out pal =
     gif_events e (engine e (length (invocations w))) conf pal out
       (Pending, w\<lparr>invocations := invocations w @
                     [Run i (push_seek e (heap w) conf []) ((''-i '' @ pal) # oo) out]\<rparr>)"
  by (simp add: createGif_def start_command_def Let_def)

lemma gif_world_simps [simp]:
  "invocations (gif_world e w g opts) = invocations w @
         [Run (Suc (length (instances w))) [''-y'']
            [''-vf fps=10,scale=320:-1:flags=lanczos,palettegen''] (palette_path e g (gif_tick w opts))]"
  "deleted (gif_world e w g opts) = deleted w"
  "cb_calls (gif_world e w g opts) = cb_calls w"
  "fresh (gif_world e w g opts) = Suc (Suc (fresh w))"
  "heap (gif_world e w g opts) = (heap w)(fresh w \<mapsto> plain (merged defaultOpts_gif w opts),
                                          Suc (fresh w) \<mapsto> plain defaultOpts_palette)"
  by (simp_all add: gif_world_def)

lemma gif_conf_deletePalette:
  "gif_conf w opts ''deletePalette'' =
     (if truthy opts
      then (case enum_props (heap w) opts ''deletePalette'' of None \<Rightarrow> JBool True | Some v \<Rightarrow> v)
      else JBool True)"
  by (simp add: gif_conf_def merged_def defaultOpts_gif_def map_add_def split: option.splits)

section \<open>What the operations leave in the store\<close>

lemma generate_store:
  assumes "valid_ref w opts"
  shows "heap (snd (generate e w g opts)) = (heap w)(fresh w \<mapsto> plain (merged (defaultSettings g) w opts))"
    and "fresh (snd (generate e w g opts)) = Suc (fresh w)"
  by (simp_all add: generate_eq [OF assms])

lemma generatePalette_store:
  assumes "valid_ref w opts"
  shows "heap (snd (generatePalette e w g opts)) = (heap w)(fresh w \<mapsto> plain (merged defaultOpts_palette w opts))"
    and "fresh (snd (generatePalette e w g opts)) = Suc (fresh w)"
  by (simp_all add: generatePalette_eq [OF assms])

lemma generateGif_store:
  assumes "valid_ref w opts"
  shows "heap (snd (generateGif e w g opts))
           = (heap w)(fresh w \<mapsto> plain (merged defaultOpts_gif w opts),
                      Suc (fresh w) \<mapsto> plain defaultOpts_palette)"
    and "fresh (snd (generateGif e w g opts)) = Suc (Suc (fresh w))"
  by (cases "run_events (engine e (length (invocations w))) (palette_path e g (gif_tick w opts)) Pending";
      simp add: generateGif_eq [OF assms] createGif_eq gif_events_frame)+

lemma independent_mergesI:
  assumes "valid_ref w opts" "valid_ref w opts'"
    and "heap w1 = (heap w)(fresh w \<mapsto> plain (merged d w opts)) \<or>
         heap w1 = (heap w)(fresh w \<mapsto> plain (merged d w opts), Suc (fresh w) \<mapsto> x)"
    and "fresh w < fresh w1"
    and "heap w2 = (heap w1)(fresh w1 \<mapsto> plain (merged d w1 opts')) \<or>
         heap w2 = (heap w1)(fresh w1 \<mapsto> plain (merged d w1 opts'), Suc (fresh w1) \<mapsto> x)"
  shows "independent_merges d w w1 w2 opts opts'"
proof -
  have e1: "enum_props (heap w1) v = enum_props (heap w) v" if "valid_ref w v" for v
    using that assms(3) by (auto simp: enum_props_above)
  have v1: "valid_ref w1 v" if "valid_ref w v" for v
    using that assms(4) by (auto elim: valid_ref_mono)
  have e2: "enum_props (heap w2) v = enum_props (heap w1) v" if "valid_ref w v" for v
    using v1 [OF that] assms(5) by (auto simp: enum_props_above)
  have m: "merged d w1 opts' = merged d w opts'"
    by (simp add: merged_def e1 assms(2))
  have h1: "map_option props (heap w1 (fresh w)) = Some (merged d w opts)"
    using assms(3) by auto
  have h2: "map_option props (heap w2 (fresh w1)) = Some (merged d w opts')"
    using assms(5) m by auto
  have h3: "map_option props (heap w2 (fresh w)) = Some (merged d w opts)"
    using assms(4,5) h1 by auto
  show ?thesis
    by (simp add: independent_merges_def h1 h2 h3 e1 e2 assms(1,2))
qed

section \<open>Facts about the completion function\<close>

lemma generate_cb_calls: "cb_calls (snd (generate e w g opts)) = cb_calls w"
  by (simp add: generate_def split_def Let_def new_object_def new_cell_def getFfmpegInstance_def
      start_command_def assignIn_log)

lemma generateOneByPercent_cb_calls: "cb_calls (snd (generateOneByPercent e w g pct opts)) = cb_calls w"
  by (simp add: generateOneByPercent_def split_def Let_def new_object_def new_cell_def
      generate_cb_calls assignIn_log)

lemma generatePalette_cb_calls: "cb_calls (snd (generatePalette e w g opts)) = cb_calls w"
  by (simp add: generatePalette_def split_def Let_def new_object_def new_cell_def getFfmpegInstance_def
      start_command_def Date_now_def assignIn_log)

lemma generateGif_cb_calls: "cb_calls (snd (generateGif e w g opts)) = cb_calls w"
  by (simp add: generateGif_def split_def Let_def new_object_def new_cell_def getFfmpegInstance_def
      Date_now_def assignIn_log generatePalette_cb_calls createGif_eq gif_events_frame
      split: promise.splits)

lemma then_callback_answers:
  "cb_calls w1 = cb_calls w \<Longrightarrow> answers e w (JFun a) p (then_callback e w1 p (JFun a))"
  by (cases p)
     (auto simp: answers_def then_callback_def call_fn_def split: option.splits)

lemma then_callback_throwing:
  "cb_throw e (length (cb_calls w)) = Some thrown \<Longrightarrow>
   cb_calls (then_callback e w (Fulfilled result) (JFun a))
     = cb_calls w @ [(JFun a, [JNull, result]), (JFun a, [thrown])]"
  by (simp add: then_callback_def call_fn_def)

section \<open>The single-percent thumbnail, unfolded\<close>







section \<open>The sample inputs, evaluated\<close>

lemma demo_world:
  "valid_ref w_demo opts_demo" "valid_ref w_demo frozen_demo"
  "invocations w_demo = []" "instances w_demo = []"
  "deleted w_demo = []" "cb_calls w_demo = []"
  "engine e_ok k = [EvFilenames [JStr ''a.png'', JStr ''b.png''], EvEnd]"
  "engine e_run k = [EvEnd]" "engine e_fail k = [EvError (JErr ''ffmpeg exited with code 1'')]"
  "obj_text e_ok = (\<lambda>a. ''[object Object]'')" "obj_value e_ok = (\<lambda>a. None)"
  "cb_throw e_ok k = None" "del_throw e_run k = None"
  by (simp_all add: w_demo_def valid_ref_def e_ok_def e_run_def e_fail_def opts_demo_def frozen_demo_def)

lemma demo_paths:
  "palette_path e_run g_demo t = ''/tmp/palette-1700000000000.png''"
  "palette_path e_fail g_demo t = ''/tmp/palette-1700000000000.png''"
  "gif_conf w_demo JUndefined ''fileName'' = JUndefined"
  "gif_conf w_demo opts_demo ''fileName'' = JUndefined"
  "gif_conf w_demo JUndefined ''deletePalette'' = JBool True"
  "gif_conf w_demo opts_demo ''deletePalette'' = JInt 1"
  "gif_output e_run w_demo g_demo opts
     = (if truthy (gif_conf w_demo opts ''fileName'')
        then ''/v/out/'' @ to_string (obj_text e_run) (gif_conf w_demo opts ''fileName'')
        else ''/v/out/video-1700000000000.gif'')"
  by (simp_all add: palette_path_def gif_conf_def gif_output_def merged_def defaultOpts_gif_def
      e_run_def e_fail_def w_demo_def g_demo_def show_num_samples enum_props_def opts_demo_def
      plain_def)


lemma props_frozen [simp]: "props (frozen ps) = ps"
  by (simp add: frozen_def)

lemma write_props_frozen [simp]: "write_props (frozen ps) src = frozen ps"
  by (auto simp: write_props_def frozen_def accepts_def split: option.splits)


section \<open>The single-percent thumbnail\<close>










section \<open>Thumbnail batches, palettes and the constructor\<close>

text \<open>
  Claim C3. For a generator built by the constructor, \<^verbatim>\<open>generate\<close> called without
  options starts one \<^verbatim>\<open>screenshots\<close> command whose settings are exactly the defaults:
  \<^verbatim>\<open>count = 10\<close>, \<^verbatim>\<open>folder\<close> the configured thumbnail path, \<^verbatim>\<open>filename\<close> the pattern
  \<^verbatim>\<open>%b-thumbnail-%r-%000i\<close>. When the command reports its file names and then ends, the
  promise is fulfilled with exactly the reported list.
\<close>

theorem generate_defaults:
  assumes "constructor e' h copts = Inr g"
  shows "invocations (snd (generate e w g JUndefined))
           = invocations w @ [Screenshots (length (instances w)) (defaultSettings g)]
       \<and> defaultSettings g ''count'' = Some (JInt 10)
       \<and> defaultSettings g ''folder'' = Some (thumbnailPath g)
       \<and> thumbnailPath g = get_prop h copts ''thumbnailPath''
       \<and> defaultSettings g ''filename'' = Some (JStr ''%b-thumbnail-%r-%000i'')
       \<and> (\<forall>fns rest. engine e (length (invocations w)) = EvFilenames fns # EvEnd # rest
            \<longrightarrow> fst (generate e w g JUndefined) = Fulfilled fns)"
proof -
  have g: "thumbnailPath g = get_prop h copts ''thumbnailPath''"
          "fileNameFormat g = JStr ''%b-thumbnail-%r-%000i''"
    using assms by (auto simp: constructor_def split: if_splits)
  show ?thesis
    by (simp add: generate_eq g defaultSettings_def resolve_def screenshots_events_settled)
qed

theorem generate_defaults_witness:
  "constructor e_ok (heap w_demo) (JObj 0) = Inr g_demo \<and>
   engine e_ok (length (invocations w_demo)) = EvFilenames [JStr ''a.png'', JStr ''b.png''] # EvEnd # [] \<and>
   fst (generate e_ok w_demo g_demo JUndefined) = Fulfilled [JStr ''a.png'', JStr ''b.png'']"
proof -
  have c: "constructor e_ok (heap w_demo) (JObj 0) = Inr g_demo"
    by (simp add: constructor_def w_demo_def g_demo_def get_prop_def enum_props_def js_or_def
        demo_world)
  have ev: "engine e_ok (length (invocations w_demo)) = EvFilenames [JStr ''a.png'', JStr ''b.png''] # EvEnd # []"
    by (simp add: e_ok_def)
  show ?thesis using generate_defaults [OF c, of e_ok w_demo] c ev by blast
qed

text \<open>
  Claim C4. When the options hold no \<^verbatim>\<open>videoFilters\<close>, \<^verbatim>\<open>generatePalette\<close> starts one
  command whose output file is \<^verbatim>\<open><tmpDir>/palette-<now>.png\<close>, \<open>now\<close> being the clock
  reading of the call, whose output options are exactly the default filter chain and
  whose input options contain \<^verbatim>\<open>-y\<close>. Whenever the promise is fulfilled, it is fulfilled
  with that path, and it is fulfilled when the command ends.
\<close>

theorem generatePalette_defaults:
  assumes "enum_props (heap w) opts ''videoFilters'' = None" "valid_ref w opts"
  shows "\<exists>io. invocations (snd (generatePalette e w g opts))
           = invocations w @
             [Run (length (instances w)) io [''-vf fps=10,scale=320:-1:flags=lanczos,palettegen'']
                (to_string (obj_text e) (tmpDir g) @ ''/palette-'' @
                 show_num (Dec (clock e (ticks w)) 0) @ ''.png'')]
       \<and> ''-y'' \<in> set io
       \<and> (\<forall>v. fst (generatePalette e w g opts) = Fulfilled v
            \<longrightarrow> v = to_string (obj_text e) (tmpDir g) @ ''/palette-'' @
                     show_num (Dec (clock e (ticks w)) 0) @ ''.png'')
       \<and> (\<forall>rest. engine e (length (invocations w)) = EvEnd # rest
            \<longrightarrow> fst (generatePalette e w g opts)
                = Fulfilled (to_string (obj_text e) (tmpDir g) @ ''/palette-'' @
                             show_num (Dec (clock e (ticks w)) 0) @ ''.png''))"
proof -
  have vf: "merged defaultOpts_palette w opts ''videoFilters''
              = Some (JStr ''fps=10,scale=320:-1:flags=lanczos,palettegen'')"
    using assms(1) by (simp add: merged_def defaultOpts_palette_def map_add_def)
  have y: "''-y'' \<in> set (push_seek e h c [''-y''])" for h c
    by (simp add: push_seek_def Let_def)
  show ?thesis
    unfolding generatePalette_eq [OF assms(2)] palette_path_def
    using run_events_fulfilled [of "engine e (length (invocations w))" _ Pending]
    by (auto simp: vf y resolve_def run_events_settled)
qed

theorem generatePalette_defaults_witness:
  "enum_props (heap w_demo) opts_demo ''videoFilters'' = None \<and> valid_ref w_demo opts_demo \<and>
   engine e_run (length (invocations w_demo)) = EvEnd # [] \<and>
   fst (generatePalette e_run w_demo g_demo opts_demo) = Fulfilled ''/tmp/palette-1700000000000.png'' \<and>
   (\<exists>io. invocations (snd (generatePalette e_run w_demo g_demo opts_demo))
           = [Run 0 io [''-vf fps=10,scale=320:-1:flags=lanczos,palettegen'']
                ''/tmp/palette-1700000000000.png''] \<and> ''-y'' \<in> set io)"
proof -
  have a: "enum_props (heap w_demo) opts_demo ''videoFilters'' = None"
    by (simp add: w_demo_def enum_props_def opts_demo_def plain_def)
  have c: "engine e_run (length (invocations w_demo)) = EvEnd # []"
    by (simp add: e_run_def)
  have p: "to_string (obj_text e_run) (tmpDir g_demo) @ ''/palette-'' @
             show_num (Dec (clock e_run (ticks w_demo)) 0) @ ''.png''
           = ''/tmp/palette-1700000000000.png''"
    using demo_paths(1) [of "ticks w_demo"] by (simp add: palette_path_def)
  show ?thesis
    using generatePalette_defaults [OF a demo_world(1), of e_run g_demo] a demo_world(1) c
    unfolding p demo_world(3,4) by auto
qed

text \<open>
  Claim C10. For every options value the constructor accepts (everything but
  \<^verbatim>\<open>undefined\<close> and \<^verbatim>\<open>null\<close>, on which reading a property throws), the stored
  \<^verbatim>\<open>percent\<close> is the string \<^verbatim>\<open><opts.percent>%\<close>, so \<^verbatim>\<open>undefined%\<close> when the option is
  absent: the left operand of \<^verbatim>\<open>||\<close> is never empty and the fallback \<^verbatim>\<open>'90%'\<close> is never
  taken.
\<close>

theorem constructor_percent:
  assumes "opts \<noteq> JUndefined" "opts \<noteq> JNull"
  shows "\<exists>g. constructor e h opts = Inr g
           \<and> percent g = JStr (to_string (obj_text e) (get_prop h opts ''percent'') @ ''%'')
           \<and> (get_prop h opts ''percent'' = JUndefined \<longrightarrow> percent g = JStr ''undefined%'')"
  using assms by (simp add: constructor_def js_or_def)

theorem constructor_percent_witness:
  "JObj 0 \<noteq> JUndefined \<and> JObj 0 \<noteq> JNull \<and> get_prop (heap w_demo) (JObj 0) ''percent'' = JUndefined \<and>
   (\<exists>g. constructor e_ok (heap w_demo) (JObj 0) = Inr g \<and> percent g = JStr ''undefined%'')"
  using constructor_percent [of "JObj 0" e_ok "heap w_demo"]
  by (simp add: w_demo_def get_prop_def enum_props_def plain_def)

section \<open>Gif generation\<close>

text \<open>
  Claim C5, as the code has it. When the palette command and the gif command both end,
  the gif command was started on the first instance with the palette path as an
  additional input, and the deletion utility is called with the palette path, once per
  \<^verbatim>\<open>end\<close> notification of the gif command, exactly when the merged \<^verbatim>\<open>deletePalette\<close> is
  strictly \<^verbatim>\<open>true\<close>: when the option is absent or \<^verbatim>\<open>true\<close>. For every other value
  (\<^verbatim>\<open>false\<close>, but also \<^verbatim>\<open>1\<close>, a string, \<^verbatim>\<open>null\<close>) it is not called. \<^verbatim>\<open>generateGif\<close> is
  fulfilled with the gif path, unless the deletion is called and throws.
\<close>

theorem generateGif_deletes_palette:
  assumes "valid_ref w opts"
    and "engine e (length (invocations w)) = EvEnd # r1"
    and "engine e (Suc (length (invocations w))) = EvEnd # r2"
  shows "(gif_conf w opts ''deletePalette'' \<noteq> JBool True \<or> del_throw e (length (deleted w)) = None
            \<longrightarrow> fst (generateGif e w g opts) = Fulfilled (gif_output e w g opts))
       \<and> (\<exists>io. invocations (snd (generateGif e w g opts)) = invocations w @
            [Run (Suc (length (instances w))) [''-y'']
               [''-vf fps=10,scale=320:-1:flags=lanczos,palettegen'']
               (palette_path e g (gif_tick w opts)),
             Run (length (instances w)) io
               ((''-i '' @ palette_path e g (gif_tick w opts)) # gif_filter e w opts)
               (gif_output e w g opts)])
       \<and> gif_conf w opts ''deletePalette'' =
            (if truthy opts
             then (case enum_props (heap w) opts ''deletePalette'' of None \<Rightarrow> JBool True | Some v \<Rightarrow> v)
             else JBool True)
       \<and> (gif_conf w opts ''deletePalette'' = JBool True \<longrightarrow>
            deleted (snd (generateGif e w g opts))
              = deleted w @ replicate (Suc (count_list r2 EvEnd)) [palette_path e g (gif_tick w opts)])
       \<and> (gif_conf w opts ''deletePalette'' \<noteq> JBool True \<longrightarrow>
            deleted (snd (generateGif e w g opts)) = deleted w)"
proof -
  define w6 where "w6 = (gif_world e w g opts)\<lparr>invocations := invocations (gif_world e w g opts) @
           [Run (length (instances w)) (push_seek e (heap (gif_world e w g opts)) (JObj (fresh w)) [])
              ((''-i '' @ palette_path e g (gif_tick w opts)) # gif_filter e w opts) (gif_output e w g opts)]\<rparr>"
  have g: "generateGif e w g opts =
      gif_events e (EvEnd # r2) (JObj (fresh w)) (palette_path e g (gif_tick w opts)) (gif_output e w g opts)
       (Pending, w6)"
    by (simp add: generateGif_eq [OF assms(1)] assms(2,3) resolve_def run_events_settled createGif_eq
        w6_def del: gif_events.simps)
  have flag: "get_prop (heap w6) (JObj (fresh w)) ''deletePalette'' = gif_conf w opts ''deletePalette''"
    by (simp add: w6_def get_prop_def enum_props_def gif_conf_def)
  have dl: "deleted w6 = deleted w" by (simp add: w6_def)
  have "fst (generateGif e w g opts) = Fulfilled (gif_output e w g opts)"
    if "gif_conf w opts ''deletePalette'' \<noteq> JBool True \<or> del_throw e (length (deleted w)) = None"
  proof -
    have "fst (complete_gif e (JObj (fresh w)) (palette_path e g (gif_tick w opts))
                 (gif_output e w g opts) (Pending, w6)) = Fulfilled (gif_output e w g opts)"
      using that by (intro complete_gif_fulfils) (simp add: flag dl)
    then show ?thesis
      unfolding g by (simp add: gif_events_settled)
  qed
  moreover have "\<exists>io. invocations (snd (generateGif e w g opts)) = invocations w @
            [Run (Suc (length (instances w))) [''-y'']
               [''-vf fps=10,scale=320:-1:flags=lanczos,palettegen'']
               (palette_path e g (gif_tick w opts)),
             Run (length (instances w)) io
               ((''-i '' @ palette_path e g (gif_tick w opts)) # gif_filter e w opts)
               (gif_output e w g opts)]"
    unfolding g by (simp add: gif_events_frame w6_def del: gif_events.simps)
  moreover have "deleted (snd (generateGif e w g opts)) = deleted w @
       (if gif_conf w opts ''deletePalette'' = JBool True
        then replicate (Suc (count_list r2 EvEnd)) [palette_path e g (gif_tick w opts)] else [])"
    unfolding g by (simp add: gif_events_deleted flag dl del: gif_events.simps)
  ultimately show ?thesis
    using gif_conf_deletePalette [of w opts] by simp
qed

theorem generateGif_deletes_palette_witness:
  "valid_ref w_demo JUndefined \<and>
   engine e_run (length (invocations w_demo)) = EvEnd # [] \<and>
   engine e_run (Suc (length (invocations w_demo))) = EvEnd # [] \<and>
   gif_conf w_demo JUndefined ''deletePalette'' = JBool True \<and>
   del_throw e_run (length (deleted w_demo)) = None \<and>
   fst (generateGif e_run w_demo g_demo JUndefined) = Fulfilled ''/v/out/video-1700000000000.gif'' \<and>
   deleted (snd (generateGif e_run w_demo g_demo JUndefined)) = [[''/tmp/palette-1700000000000.png'']]"
  using generateGif_deletes_palette [of w_demo JUndefined e_run "[]" "[]" g_demo]
  by (simp add: demo_paths demo_world)

text \<open>
  Claim C5 as the specification states it fails: with \<^verbatim>\<open>deletePalette: 1\<close>, a value that
  is not \<^verbatim>\<open>false\<close>, both steps succeed and the deletion utility is never called.
\<close>

theorem generateGif_truthy_flag_counterexample:
  "enum_props (heap w_demo) opts_demo ''deletePalette'' = Some (JInt 1) \<and>
   JInt 1 \<noteq> JBool False \<and>
   fst (generatePalette e_run w_demo g_demo JUndefined) = Fulfilled ''/tmp/palette-1700000000000.png'' \<and>
   fst (generateGif e_run w_demo g_demo opts_demo) = Fulfilled ''/v/out/video-1700000000000.gif'' \<and>
   deleted (snd (generateGif e_run w_demo g_demo opts_demo)) = []"
proof -
  have a: "enum_props (heap w_demo) opts_demo ''deletePalette'' = Some (JInt 1)"
    by (simp add: w_demo_def enum_props_def opts_demo_def plain_def)
  have p: "fst (generatePalette e_run w_demo g_demo JUndefined) = Fulfilled ''/tmp/palette-1700000000000.png''"
    by (simp add: generatePalette_eq demo_world demo_paths resolve_def)
  define w6 where "w6 = (gif_world e_run w_demo g_demo opts_demo)
                  \<lparr>invocations := invocations (gif_world e_run w_demo g_demo opts_demo) @
                     [Run 0 (push_seek e_run (heap (gif_world e_run w_demo g_demo opts_demo)) (JObj (fresh w_demo)) [])
                        ((''-i '' @ ''/tmp/palette-1700000000000.png'') # gif_filter e_run w_demo opts_demo)
                        ''/v/out/video-1700000000000.gif'']\<rparr>"
  have g: "generateGif e_run w_demo g_demo opts_demo =
             gif_events e_run [EvEnd] (JObj (fresh w_demo)) ''/tmp/palette-1700000000000.png''
               ''/v/out/video-1700000000000.gif'' (Pending, w6)"
    by (subst generateGif_eq [OF demo_world(1)])
       (simp add: demo_world demo_paths resolve_def createGif_eq w6_def del: gif_events.simps)
  have flag: "get_prop (heap w6) (JObj (fresh w_demo)) ''deletePalette'' = JInt 1"
    using demo_paths(6) by (simp add: w6_def get_prop_def enum_props_def gif_conf_def)
  have dl: "deleted w6 = []" by (simp add: w6_def demo_world)
  have d: "deleted (snd (generateGif e_run w_demo g_demo opts_demo)) = []"
    unfolding g by (simp add: gif_events_deleted flag dl del: gif_events.simps)
  have f: "fst (generateGif e_run w_demo g_demo opts_demo) = Fulfilled ''/v/out/video-1700000000000.gif''"
    unfolding g by (simp add: complete_gif_def flag resolve_def)
  show ?thesis using a p d f by simp
qed

text \<open>
  Claim C6. When the palette command reports an error, \<^verbatim>\<open>generateGif\<close> is rejected with
  that same error; the only command started is the palette's (on the second instance:
  the first one, made for the gif, is never started), and nothing is deleted.
\<close>

theorem generateGif_palette_failure:
  assumes "valid_ref w opts"
    and "engine e (length (invocations w)) = EvError err # rest"
  shows "fst (generateGif e w g opts) = Rejected err
       \<and> invocations (snd (generateGif e w g opts)) = invocations w @
            [Run (Suc (length (instances w))) [''-y'']
               [''-vf fps=10,scale=320:-1:flags=lanczos,palettegen'']
               (palette_path e g (gif_tick w opts))]
       \<and> deleted (snd (generateGif e w g opts)) = deleted w"
  by (simp add: generateGif_eq [OF assms(1)] assms(2) reject_def run_events_settled)

theorem generateGif_palette_failure_witness:
  "valid_ref w_demo opts_demo \<and>
   engine e_fail (length (invocations w_demo)) = EvError (JErr ''ffmpeg exited with code 1'') # [] \<and>
   fst (generateGif e_fail w_demo g_demo opts_demo) = Rejected (JErr ''ffmpeg exited with code 1'') \<and>
   invocations (snd (generateGif e_fail w_demo g_demo opts_demo))
     = [Run 1 [''-y''] [''-vf fps=10,scale=320:-1:flags=lanczos,palettegen'']
          ''/tmp/palette-1700000000000.png''] \<and>
   deleted (snd (generateGif e_fail w_demo g_demo opts_demo)) = []"
  using generateGif_palette_failure [of w_demo opts_demo e_fail "JErr ''ffmpeg exited with code 1''" "[]" g_demo] demo_world(1)
  by (simp add: demo_paths demo_world)

section \<open>Merging options over the defaults\<close>

text \<open>
  Claim C8. Every call of \<^verbatim>\<open>generate\<close>, \<^verbatim>\<open>generatePalette\<close> and \<^verbatim>\<open>generateGif\<close> builds its
  default template anew and merges into that new object, so a call leaves nothing behind
  for the next one: of two successive calls, the settings the second resolves are the
  defaults overridden by its own options, whatever the options of the first were; called
  with the same options they are the settings of the first call, which the second call
  does not touch.
\<close>

theorem merges_are_independent:
  assumes "valid_ref w opts" "valid_ref w opts'"
  shows "independent_merges (defaultSettings g) w (snd (generate e w g opts))
           (snd (generate e (snd (generate e w g opts)) g opts')) opts opts'
       \<and> independent_merges defaultOpts_palette w (snd (generatePalette e w g opts))
           (snd (generatePalette e (snd (generatePalette e w g opts)) g opts')) opts opts'
       \<and> independent_merges defaultOpts_gif w (snd (generateGif e w g opts))
           (snd (generateGif e (snd (generateGif e w g opts)) g opts')) opts opts'"
proof -
  have v1: "valid_ref (snd (generate e w g opts)) opts'"
    using assms(2) by (rule valid_ref_mono) (simp add: generate_store [OF assms(1)])
  have v2: "valid_ref (snd (generatePalette e w g opts)) opts'"
    using assms(2) by (rule valid_ref_mono) (simp add: generatePalette_store [OF assms(1)])
  have v3: "valid_ref (snd (generateGif e w g opts)) opts'"
    using assms(2) by (rule valid_ref_mono) (simp add: generateGif_store [OF assms(1)])
  have a: "independent_merges (defaultSettings g) w (snd (generate e w g opts))
           (snd (generate e (snd (generate e w g opts)) g opts')) opts opts'"
    by (rule independent_mergesI [OF assms])
       (simp_all add: generate_store [OF assms(1)] generate_store [OF v1])
  have b: "independent_merges defaultOpts_palette w (snd (generatePalette e w g opts))
           (snd (generatePalette e (snd (generatePalette e w g opts)) g opts')) opts opts'"
    by (rule independent_mergesI [OF assms])
       (simp_all add: generatePalette_store [OF assms(1)] generatePalette_store [OF v2])
  have c: "independent_merges defaultOpts_gif w (snd (generateGif e w g opts))
           (snd (generateGif e (snd (generateGif e w g opts)) g opts')) opts opts'"
    by (rule independent_mergesI [OF assms, where x = "plain defaultOpts_palette"])
       (simp_all add: generateGif_store [OF assms(1)] generateGif_store [OF v3])
  show ?thesis using a b c by simp
qed

theorem merges_are_independent_witness:
  "valid_ref w_demo opts_demo \<and>
   heap (snd (generate e_ok (snd (generate e_ok w_demo g_demo opts_demo)) g_demo opts_demo))
        (fresh (snd (generate e_ok w_demo g_demo opts_demo)))
     = heap (snd (generate e_ok w_demo g_demo opts_demo)) (fresh w_demo) \<and>
   heap (snd (generateGif e_ok (snd (generateGif e_ok w_demo g_demo opts_demo)) g_demo opts_demo))
        (fresh (snd (generateGif e_ok w_demo g_demo opts_demo)))
     = heap (snd (generateGif e_ok w_demo g_demo opts_demo)) (fresh w_demo)"
proof -
  have v: "valid_ref (snd (generate e_ok w_demo g_demo opts_demo)) opts_demo"
    using demo_world(1) by (rule valid_ref_mono) (simp add: generate_store [OF demo_world(1)])
  have v': "valid_ref (snd (generateGif e_ok w_demo g_demo opts_demo)) opts_demo"
    using demo_world(1) by (rule valid_ref_mono) (simp add: generateGif_store [OF demo_world(1)])
  show ?thesis
    using merges_are_independent [of w_demo opts_demo opts_demo g_demo e_ok] demo_world(1)
    by (simp add: independent_merges_def generate_store [OF demo_world(1)] generate_store [OF v]
        generateGif_store [OF demo_world(1)] generateGif_store [OF v'] merged_def)
qed

section \<open>The callback-style adapters\<close>

text \<open>
  Claim C7, as the code has it. Whether the completion function is passed last or in
  the place of the options (\<^verbatim>\<open>cb || opts\<close>), each of the four adapters calls it with
  \<^verbatim>\<open>(null, result)\<close> when the underlying operation succeeds, and that is the only call
  when it returns; when the operation fails, it is called exactly once, with the error
  as its only argument (\<^verbatim>\<open>.catch(callback)\<close> passes no second argument, so the callee
  sees \<^verbatim>\<open>undefined\<close> there, not \<^verbatim>\<open>null\<close>).
\<close>

theorem adapters_call_back:
  assumes "js_or cb opts = JFun a"
  shows "answers e w (JFun a) (fst (generateOneByPercent e w g pct opts))
     (generateOneByPercentCb e w g pct opts cb)
   \<and> answers e w (JFun a) (then_p (fst (generate e w g opts)) JArr)
     (generateCb e w g opts cb)
   \<and> answers e w (JFun a) (then_p (fst (generatePalette e w g opts)) JStr)
     (generatePaletteCb e w g opts cb)
   \<and> answers e w (JFun a) (then_p (fst (generateGif e w g opts)) JStr)
     (generateGifCb e w g opts cb)"
  by (simp add: generateOneByPercentCb_def generateCb_def generatePaletteCb_def generateGifCb_def
      split_def Let_def assms then_callback_answers generate_cb_calls generateOneByPercent_cb_calls
      generatePalette_cb_calls generateGif_cb_calls)

theorem adapters_call_back_witness:
  "js_or cb_demo opts_demo = cb_demo \<and> js_or JUndefined cb_demo = cb_demo \<and>
   cb_throw e_ok (length (cb_calls w_demo)) = None \<and>
   fst (generate e_ok w_demo g_demo opts_demo) = Fulfilled [JStr ''a.png'', JStr ''b.png''] \<and>
   cb_calls (generateCb e_ok w_demo g_demo opts_demo cb_demo)
     = [(cb_demo, [JNull, JArr [JStr ''a.png'', JStr ''b.png'']])] \<and>
   fst (generate e_ok w_demo g_demo cb_demo) = Fulfilled [JStr ''a.png'', JStr ''b.png''] \<and>
   cb_calls (generateCb e_ok w_demo g_demo cb_demo JUndefined)
     = [(cb_demo, [JNull, JArr [JStr ''a.png'', JStr ''b.png'']])] \<and>
   fst (generateOneByPercent e_ok w_demo g_demo (JInt 101) opts_demo)
     = Rejected (JErr ''Percent must be a value from 0-100'') \<and>
   cb_calls (generateOneByPercentCb e_ok w_demo g_demo (JInt 101) opts_demo cb_demo)
     = [(cb_demo, [JErr ''Percent must be a value from 0-100''])]"
proof -
  have j: "js_or cb_demo opts_demo = JFun 2" "js_or JUndefined cb_demo = JFun 2"
    by (simp_all add: js_or_def cb_demo_def)
  have vc: "valid_ref w_demo cb_demo"
    by (simp add: valid_ref_def cb_demo_def w_demo_def)
  have g: "fst (generate e_ok w_demo g_demo opts_demo) = Fulfilled [JStr ''a.png'', JStr ''b.png'']"
          "fst (generate e_ok w_demo g_demo cb_demo) = Fulfilled [JStr ''a.png'', JStr ''b.png'']"
    by (simp_all add: generate_eq [OF demo_world(1)] generate_eq [OF vc] demo_world resolve_def)
  have p: "fst (generateOneByPercent e_ok w_demo g_demo (JInt 101) opts_demo)
             = Rejected (JErr ''Percent must be a value from 0-100'')"
    by (simp add: generateOneByPercent_def)
  show ?thesis
    using adapters_call_back [OF j(1), of e_ok w_demo g_demo "JInt 101"] adapters_call_back [OF j(2), of e_ok w_demo g_demo "JInt 101"]
      j g p
    by (simp add: answers_def then_p_def demo_world cb_demo_def)
qed

text \<open>
  Claim C7 as the specification states it fails: on failure the completion function is
  not called with \<^verbatim>\<open>(error, null)\<close> but with the error alone.
\<close>

theorem adapter_failure_arguments_counterexample:
  "fst (generateOneByPercent e_ok w_demo g_demo (JInt 101) opts_demo)
     = Rejected (JErr ''Percent must be a value from 0-100'') \<and>
   cb_calls (generateOneByPercentCb e_ok w_demo g_demo (JInt 101) opts_demo cb_demo)
     = [(cb_demo, [JErr ''Percent must be a value from 0-100''])] \<and>
   cb_calls (generateOneByPercentCb e_ok w_demo g_demo (JInt 101) opts_demo cb_demo)
     \<noteq> [(cb_demo, [JErr ''Percent must be a value from 0-100'', JNull])]"
  by (simp add: generateOneByPercentCb_def generateOneByPercent_def then_callback_def call_fn_def
      js_or_def cb_demo_def demo_world)

end
